theory Spec2Isabelle
  imports Complex_Main
begin

section \<open>Values of the sensor visualisation screen\<close>

text \<open>
  The screen component (\<^verbatim>\<open>Screen\<close>) keeps its state in React state cells and updates
  them from the asynchronous function \<^verbatim>\<open>refresh\<close> and from one effect on the list of
  live packages. The model keeps one record field per state cell, and one function per
  stretch of code that runs without giving up control.

  Channel values are JSON numbers. The code only compares them (\<^verbatim>\<open>Math.min\<close>,
  \<^verbatim>\<open>Math.max\<close>), so they are modelled as reals; the two infinities that
  \<^verbatim>\<open>Math.min()\<close> and \<^verbatim>\<open>Math.max()\<close> return on no arguments are added.
\<close>

datatype jsnum = MinusInfinity | Number real | PlusInfinity

fun jsnum_le :: "jsnum \<Rightarrow> jsnum \<Rightarrow> bool" where
  "jsnum_le MinusInfinity _ = True"
| "jsnum_le (Number x) MinusInfinity = False"
| "jsnum_le (Number x) (Number y) = (x \<le> y)"
| "jsnum_le (Number x) PlusInfinity = True"
| "jsnum_le PlusInfinity PlusInfinity = True"
| "jsnum_le PlusInfinity _ = False"

text \<open>
  One element of the fetched array: the property \<^verbatim>\<open>timestamp\<close> and the remaining own
  properties (what \<^verbatim>\<open>{ timestamp, ...readings }\<close> binds to \<^verbatim>\<open>readings\<close>), in the order
  \<^verbatim>\<open>Object.keys\<close> and \<^verbatim>\<open>Object.values\<close> enumerate them.
\<close>

record reading =
  timestamp :: string
  readings :: "(string \<times> real) list"

type_synonym temperatureSample = "real \<times> string"

record sensor =
  name :: string
  isSelected :: bool
  colour :: "string option"

record chart_options =
  sensors :: "sensor list"
  showTemperature :: bool
  temperatureData :: "temperatureSample list"

text \<open>\<^verbatim>\<open>scale\<close> is \<open>None\<close> when the code stores \<^verbatim>\<open>undefined\<close> there.\<close>

record model_options =
  showContext :: bool
  colourMode :: nat
  scale :: "jsnum list option"

record screen =
  data :: "reading list"
  mode :: nat
  live :: bool
  liveMode :: nat
  dataRange :: "jsnum list"
  dataType :: string
  isLoading :: bool
  chartOptions :: chart_options
  modelOptions :: model_options

text \<open>
  What the component reads from outside: its props and the constants it imports from
  \<^verbatim>\<open>../utils\<close> (the palette \<^verbatim>\<open>chartColours\<close> and the table \<^verbatim>\<open>modelColourScale\<close>, whose
  file is not part of the sources and which are therefore parameters), and the greatest
  number of arguments that the engine running the code accepts in one call.
\<close>

record env =
  packageServerName :: string
  packageURL :: string
  chartColours :: "string list"
  modelColourScale :: "string \<Rightarrow> jsnum list option"
  argumentLimit :: nat

datatype error = FetchError | TypeError | RangeError

text \<open>How an awaited promise settles, and how the promise of \<^verbatim>\<open>refresh\<close> itself does.\<close>

datatype 'a outcome = Rejects error | Resolves 'a

datatype settlement = Fulfilled | RejectedWith error

text \<open>The state cells together with what \<^verbatim>\<open>console.error\<close> has printed.\<close>

record world =
  scr :: screen
  console :: "error list"

definition initial_screen :: screen where
  "initial_screen =
     \<lparr>data = [], mode = 0, live = False, liveMode = 1, dataRange = [], dataType = ''str'',
      isLoading = False,
      chartOptions = \<lparr>sensors = [], showTemperature = False, temperatureData = []\<rparr>,
      modelOptions = \<lparr>showContext = True, colourMode = 0,
                      scale = Some [Number 0, Number 0]\<rparr>\<rparr>"

definition initial_world :: world where
  "initial_world = \<lparr>scr = initial_screen, console = []\<rparr>"

section \<open>The derived values computed in \<^verbatim>\<open>refresh\<close>\<close>

fun Math_min :: "real list \<Rightarrow> jsnum" where
  "Math_min [] = PlusInfinity"
| "Math_min (x # xs) = Number (fold min xs x)"

fun Math_max :: "real list \<Rightarrow> jsnum" where
  "Math_max [] = MinusInfinity"
| "Math_max (x # xs) = Number (fold max xs x)"

text \<open>
  A call \<^verbatim>\<open>f(...xs)\<close> passes every element of \<^verbatim>\<open>xs\<close> as an argument of its own, and
  throws a \<^verbatim>\<open>RangeError\<close> when they are more than the engine accepts.
\<close>

definition spread_call :: "env \<Rightarrow> (real list \<Rightarrow> jsnum) \<Rightarrow> real list \<Rightarrow> error + jsnum" where
  "spread_call e f xs = (if argumentLimit e < length xs then Inl RangeError else Inr (f xs))"

text \<open>\<^verbatim>\<open>data.reduce((acc, { timestamp, ...readings }) => acc.concat(Object.values(readings)), [])\<close>\<close>

definition allReadings :: "reading list \<Rightarrow> real list" where
  "allReadings d = foldl (\<lambda>acc r. acc @ map snd (readings r)) [] d"

text \<open>\<^verbatim>\<open>[Math.min(...allReadings), Math.max(...allReadings)]\<close>, the minimum first.\<close>

definition computeDataRange :: "env \<Rightarrow> reading list \<Rightarrow> error + jsnum list" where
  "computeDataRange e d =
     (case spread_call e Math_min (allReadings d) of
        Inl err \<Rightarrow> Inl err
      | Inr lo \<Rightarrow>
          (case spread_call e Math_max (allReadings d) of
             Inl err \<Rightarrow> Inl err
           | Inr hi \<Rightarrow> Inr [lo, hi]))"

text \<open>
  \<^verbatim>\<open>chartColours[index % chartColours.length]\<close>: on an empty palette the index is
  \<^verbatim>\<open>NaN\<close> and the read gives \<^verbatim>\<open>undefined\<close>.
\<close>

definition paletteColour :: "string list \<Rightarrow> nat \<Rightarrow> string option" where
  "paletteColour palette index =
     (if palette = [] then None else Some (palette ! (index mod length palette)))"

definition sensorOption :: "env \<Rightarrow> nat \<Rightarrow> string \<Rightarrow> sensor" where
  "sensorOption e index sensorName =
     \<lparr>name = sensorName, isSelected = (index < 3),
      colour = paletteColour (chartColours e) index\<rparr>"

definition sensorOptions :: "env \<Rightarrow> string list \<Rightarrow> sensor list" where
  "sensorOptions e sensorNames =
     map (\<lambda>(index, sensorName). sensorOption e index sensorName) (enumerate 0 sensorNames)"

text \<open>\<^verbatim>\<open>modelOptions.colourMode ? modelColourScale[dataType] : dataRange\<close>\<close>

definition modelScale :: "env \<Rightarrow> model_options \<Rightarrow> string \<Rightarrow> jsnum list \<Rightarrow> jsnum list option" where
  "modelScale e mo dt rng =
     (if colourMode mo \<noteq> 0 then modelColourScale e dt else Some rng)"

section \<open>\<^verbatim>\<open>refresh\<close>, one stretch of code at a time\<close>

text \<open>
  \<^verbatim>\<open>refresh(dataType, averagingWindow, startTime, endTime)\<close> is an asynchronous function
  with two \<^verbatim>\<open>await\<close>s. It runs in three stretches: from the call to the first
  \<^verbatim>\<open>await\<close> (of \<^verbatim>\<open>fetchData\<close>), from there to the second (of
  \<^verbatim>\<open>fetchTemperatureData\<close>), and from there to its end. Between two stretches other
  code of the screen may run.

  The function is a closure of the render that created it: its \<^verbatim>\<open>chartOptions\<close> and
  \<^verbatim>\<open>modelOptions\<close> are the values of that render, whatever the state cells hold when
  the function later resumes. A setter replaces the value of its state cell.

  \<^verbatim>\<open>fetchData\<close> and \<^verbatim>\<open>fetchTemperatureData\<close> are imported from \<^verbatim>\<open>../utils\<close>; each is
  present here by how its promise settles. The two times are valid dates, so that
  \<^verbatim>\<open>toISOString\<close> returns.
\<close>

record refresh_args =
  arg_dataType :: string
  arg_averagingWindow :: string
  arg_startTime :: string
  arg_endTime :: string

record closure =
  cl_args :: refresh_args
  cl_chartOptions :: chart_options
  cl_modelOptions :: model_options

text \<open>The locals alive across the second \<^verbatim>\<open>await\<close>.\<close>

record continuation =
  k_closure :: closure
  k_dataRange :: "jsnum list"
  k_sensors :: "sensor list"

definition setIsLoading :: "bool \<Rightarrow> world \<Rightarrow> world" where
  "setIsLoading b w = w\<lparr>scr := (scr w)\<lparr>isLoading := b\<rparr>\<rparr>"

definition console_error :: "error \<Rightarrow> world \<Rightarrow> world" where
  "console_error err w = w\<lparr>console := console w @ [err]\<rparr>"

text \<open>
  The \<^verbatim>\<open>catch\<close> block and the statement after it: the error is printed, the loading flag
  is cleared, and the function returns normally.
\<close>

definition caught :: "error \<Rightarrow> world \<Rightarrow> world" where
  "caught err w = setIsLoading False (console_error err w)"

text \<open>The call, up to the first \<^verbatim>\<open>await\<close>.\<close>

definition refresh_call :: "refresh_args \<Rightarrow> world \<Rightarrow> world \<times> closure" where
  "refresh_call args w =
     (setIsLoading True w,
      \<lparr>cl_args = args, cl_chartOptions = chartOptions (scr w),
       cl_modelOptions = modelOptions (scr w)\<rparr>)"

text \<open>
  From the settlement of \<^verbatim>\<open>fetchData\<close> to the second \<^verbatim>\<open>await\<close>. The series and the
  data type are stored first. The computation of the range throws a \<^verbatim>\<open>RangeError\<close> on a
  series with more channel values than one call accepts; neither the range nor the mode
  is set then. The destructuring of \<^verbatim>\<open>data[0]\<close> throws a \<^verbatim>\<open>TypeError\<close> when the array
  is empty (its first element is \<^verbatim>\<open>undefined\<close>); the setters before it have run by then.
\<close>

definition refresh_fetched ::
  "env \<Rightarrow> closure \<Rightarrow> reading list outcome \<Rightarrow> world \<Rightarrow> world \<times> (settlement + continuation)" where
  "refresh_fetched e c fetched w =
     (case fetched of
        Rejects err \<Rightarrow> (caught err w, Inl Fulfilled)
      | Resolves d \<Rightarrow>
          (let dt = arg_dataType (cl_args c);
               s1 = (scr w)\<lparr>data := d\<rparr>;
               s2 = s1\<lparr>dataType := dt\<rparr>
           in (case computeDataRange e d of
                 Inl err \<Rightarrow> (caught err (w\<lparr>scr := s2\<rparr>), Inl Fulfilled)
               | Inr rng \<Rightarrow>
                   (let s3 = s2\<lparr>dataRange := rng\<rparr>;
                        s4 = (if dt = ''raw'' then s3\<lparr>mode := 1\<rparr> else s3);
                        w4 = w\<lparr>scr := s4\<rparr>
                    in (case d of
                          [] \<Rightarrow> (caught TypeError w4, Inl Fulfilled)
                        | first # _ \<Rightarrow>
                            (w4, Inr \<lparr>k_closure = c, k_dataRange = rng,
                                      k_sensors = sensorOptions e (map fst (readings first))\<rparr>))))))"

text \<open>From the settlement of \<^verbatim>\<open>fetchTemperatureData\<close> to the end.\<close>

definition refresh_temperature ::
  "env \<Rightarrow> continuation \<Rightarrow> temperatureSample list outcome \<Rightarrow> world \<Rightarrow> world \<times> settlement" where
  "refresh_temperature e k fetched w =
     (case fetched of
        Rejects err \<Rightarrow> (caught err w, Fulfilled)
      | Resolves t \<Rightarrow>
          (let c = k_closure k;
               s1 = (scr w)\<lparr>chartOptions :=
                       (cl_chartOptions c)\<lparr>sensors := k_sensors k, temperatureData := t\<rparr>\<rparr>;
               s2 = s1\<lparr>modelOptions :=
                       (cl_modelOptions c)\<lparr>scale :=
                          modelScale e (cl_modelOptions c) (arg_dataType (cl_args c))
                            (k_dataRange k)\<rparr>\<rparr>
           in (setIsLoading False (w\<lparr>scr := s2\<rparr>), Fulfilled)))"

text \<open>
  One whole run of \<^verbatim>\<open>refresh\<close> with nothing else running in between, given how the two
  fetches settle.
\<close>

definition refresh ::
  "env \<Rightarrow> refresh_args \<Rightarrow> reading list outcome \<Rightarrow> temperatureSample list outcome \<Rightarrow>
     world \<Rightarrow> world \<times> settlement" where
  "refresh e args fetched fetchedT w =
     (case refresh_call args w of
        (w1, c) \<Rightarrow>
          (case refresh_fetched e c fetched w1 of
             (w2, Inl p) \<Rightarrow> (w2, p)
           | (w2, Inr k) \<Rightarrow> refresh_temperature e k fetchedT w2))"

section \<open>The effect on the list of live packages\<close>

text \<open>
  \<^verbatim>\<open>useEffect(() => { const live = livePackages.includes(props.packageServerName);
  setLive(live); if (!live) { setLiveMode(1); } }, [livePackages])\<close>
\<close>

definition livePackagesEffect :: "env \<Rightarrow> string list \<Rightarrow> screen \<Rightarrow> screen" where
  "livePackagesEffect e pkgs s =
     (let isLive = (packageServerName e \<in> set pkgs);
          s1 = s\<lparr>live := isLive\<rparr>
      in if \<not> isLive then s1\<lparr>liveMode := 1\<rparr> else s1)"

section \<open>The screen as a system of events\<close>

text \<open>
  Every call of \<^verbatim>\<open>refresh\<close> is a task of its own; the tasks are kept in the order of
  their calls, so the position of a task is its sequence number. A task waits for
  \<^verbatim>\<open>fetchData\<close>, then for \<^verbatim>\<open>fetchTemperatureData\<close>, then it has settled.
\<close>

datatype task =
    AwaitFetchData closure
  | AwaitFetchTemperatureData continuation
  | Settled settlement

record system =
  sys_world :: world
  tasks :: "task list"
  livePackages :: "string list"

text \<open>
  What can happen to the screen: the menu calls one of the functions it is handed
  (\<^verbatim>\<open>refresh\<close>, \<^verbatim>\<open>setMode\<close>, \<^verbatim>\<open>setLiveMode\<close>, \<^verbatim>\<open>setChartOptions\<close>,
  \<^verbatim>\<open>setModelOptions\<close>; the setters are the state cells' own, handed over as they are), a
  fetch of a waiting task settles, or the list of live packages changes and the effect
  runs.
\<close>

datatype event =
    Refresh refresh_args
  | FetchDataSettles nat "reading list outcome"
  | FetchTemperatureSettles nat "temperatureSample list outcome"
  | LivePackagesChange "string list"
  | SetMode nat
  | SetLiveMode nat
  | SetChartOptions chart_options
  | SetModelOptions model_options

definition on_screen :: "(screen \<Rightarrow> screen) \<Rightarrow> system \<Rightarrow> system" where
  "on_screen f sy = sy\<lparr>sys_world := (sys_world sy)\<lparr>scr := f (scr (sys_world sy))\<rparr>\<rparr>"

fun step :: "env \<Rightarrow> event \<Rightarrow> system \<Rightarrow> system" where
  "step e (Refresh args) sy =
     (case refresh_call args (sys_world sy) of
        (w, c) \<Rightarrow> sy\<lparr>sys_world := w, tasks := tasks sy @ [AwaitFetchData c]\<rparr>)"
| "step e (FetchDataSettles i fetched) sy =
     (if i < length (tasks sy) then
        (case tasks sy ! i of
           AwaitFetchData c \<Rightarrow>
             (case refresh_fetched e c fetched (sys_world sy) of
                (w, Inl p) \<Rightarrow> sy\<lparr>sys_world := w, tasks := (tasks sy)[i := Settled p]\<rparr>
              | (w, Inr k) \<Rightarrow>
                  sy\<lparr>sys_world := w, tasks := (tasks sy)[i := AwaitFetchTemperatureData k]\<rparr>)
         | _ \<Rightarrow> sy)
      else sy)"
| "step e (FetchTemperatureSettles i fetched) sy =
     (if i < length (tasks sy) then
        (case tasks sy ! i of
           AwaitFetchTemperatureData k \<Rightarrow>
             (case refresh_temperature e k fetched (sys_world sy) of
                (w, p) \<Rightarrow> sy\<lparr>sys_world := w, tasks := (tasks sy)[i := Settled p]\<rparr>)
         | _ \<Rightarrow> sy)
      else sy)"
| "step e (LivePackagesChange pkgs) sy =
     on_screen (livePackagesEffect e pkgs) (sy\<lparr>livePackages := pkgs\<rparr>)"
| "step e (SetMode m) sy = on_screen (\<lambda>s. s\<lparr>mode := m\<rparr>) sy"
| "step e (SetLiveMode m) sy = on_screen (\<lambda>s. s\<lparr>liveMode := m\<rparr>) sy"
| "step e (SetChartOptions co) sy = on_screen (\<lambda>s. s\<lparr>chartOptions := co\<rparr>) sy"
| "step e (SetModelOptions mo) sy = on_screen (\<lambda>s. s\<lparr>modelOptions := mo\<rparr>) sy"

fun run :: "env \<Rightarrow> event list \<Rightarrow> system \<Rightarrow> system" where
  "run e [] sy = sy"
| "run e (ev # evs) sy = run e evs (step e ev sy)"

text \<open>The screen before its first effect, under a given list of live packages.\<close>

definition initial_system :: "string list \<Rightarrow> system" where
  "initial_system pkgs = \<lparr>sys_world = initial_world, tasks = [], livePackages = pkgs\<rparr>"

fun resolves_data :: "event \<Rightarrow> bool" where
  "resolves_data (FetchDataSettles i (Resolves d)) = True"
| "resolves_data _ = False"

text \<open>The settlement of a fetch of the call at position \<open>i\<close>.\<close>

fun settles :: "nat \<Rightarrow> event \<Rightarrow> bool" where
  "settles i (FetchDataSettles j fetched) = (i = j)"
| "settles i (FetchTemperatureSettles j fetched) = (i = j)"
| "settles i _ = False"

text \<open>
  A run in which the menu calls \<^verbatim>\<open>setLiveMode(0)\<close> only while the \<^verbatim>\<open>live\<close> it is handed
  is true.
\<close>

fun goes_live_only_when_live :: "env \<Rightarrow> event list \<Rightarrow> system \<Rightarrow> bool" where
  "goes_live_only_when_live e [] sy = True"
| "goes_live_only_when_live e (ev # evs) sy =
     ((case ev of SetLiveMode m \<Rightarrow> m \<noteq> 0 \<or> live (scr (sys_world sy)) | _ \<Rightarrow> True)
      \<and> goes_live_only_when_live e evs (step e ev sy))"

definition live_invariant :: "env \<Rightarrow> system \<Rightarrow> bool" where
  "live_invariant e sy =
     ((liveMode (scr (sys_world sy)) \<noteq> 0 \<or> live (scr (sys_world sy)))
      \<and> (\<not> live (scr (sys_world sy)) \<or> packageServerName e \<in> set (livePackages sy)))"

section \<open>The steel frame screen\<close>

text \<open>
  \<^verbatim>\<open>SteelFrameScreen\<close> has one \<^verbatim>\<open>await\<close> in its \<^verbatim>\<open>refresh\<close> and a state cell
  \<^verbatim>\<open>modelModeEnabled\<close> that it hands to its menu.
\<close>

record steel_screen =
  sf_data :: "reading list"
  sf_mode :: nat
  sf_modelModeEnabled :: bool
  sf_dataType :: string
  sf_isLoading :: bool

definition sf_refresh ::
  "string \<Rightarrow> reading list outcome \<Rightarrow> steel_screen \<times> error list \<Rightarrow> steel_screen \<times> error list" where
  "sf_refresh dt fetched sl =
     (case sl of (s, printed) \<Rightarrow>
        (let s0 = s\<lparr>sf_isLoading := True\<rparr> in
         case fetched of
           Rejects err \<Rightarrow> (s0\<lparr>sf_isLoading := False\<rparr>, printed @ [err])
         | Resolves d \<Rightarrow>
             (let s1 = s0\<lparr>sf_data := d\<rparr>;
                  s2 = s1\<lparr>sf_dataType := dt\<rparr>;
                  s3 = (if dt = ''raw''
                        then (s2\<lparr>sf_mode := 1\<rparr>)\<lparr>sf_modelModeEnabled := False\<rparr>
                        else s2\<lparr>sf_modelModeEnabled := True\<rparr>)
              in (s3\<lparr>sf_isLoading := False\<rparr>, printed))))"

section \<open>The menu's choice of render mode\<close>

datatype renderMode = Model | Chart

fun mode_code :: "renderMode \<Rightarrow> nat" where
  "mode_code Model = 0"
| "mode_code Chart = 1"

text \<open>
  Modelled from the spec: the component \<^verbatim>\<open>Menu\<close>, which turns a press on a mode button
  into a call of \<^verbatim>\<open>setMode\<close>, is not part of the sources; the screens hand it
  \<^verbatim>\<open>dataType\<close> (\<^verbatim>\<open>Screen\<close>) or \<^verbatim>\<open>modelModeEnabled\<close> (\<^verbatim>\<open>SteelFrameScreen\<close>, under the
  comment "Enable/disable the model mode button"). The spec: the user may not override
  to Model while the committed series is of the raw type, and may otherwise freely
  choose Model or Chart.
\<close>

definition menu_selectMode :: "renderMode \<Rightarrow> screen \<Rightarrow> screen" where
  "menu_selectMode target s =
     (if target = Model \<and> dataType s = ''raw'' then s else s\<lparr>mode := mode_code target\<rparr>)"

text \<open>
  Modelled from the spec: the same button of \<^verbatim>\<open>Menu\<close> on the steel frame screen, where
  the menu is handed \<^verbatim>\<open>modelModeEnabled\<close>; the model mode button is inert while it is
  false.
\<close>

definition sf_menu_selectMode :: "renderMode \<Rightarrow> steel_screen \<Rightarrow> steel_screen" where
  "sf_menu_selectMode target s =
     (if target = Model \<and> \<not> sf_modelModeEnabled s then s else s\<lparr>sf_mode := mode_code target\<rparr>)"

section \<open>Concrete inputs\<close>

definition env0 :: env where
  "env0 =
     \<lparr>packageServerName = ''steel-frame'', packageURL = ''http://host/fbg/steel-frame'',
      chartColours = [''red'', ''green''],
      modelColourScale = (\<lambda>dt. if dt = ''str'' then Some [Number (-100), Number 100] else None),
      argumentLimit = 65535\<rparr>"

definition args_str :: refresh_args where
  "args_str =
     \<lparr>arg_dataType = ''str'', arg_averagingWindow = ''10'',
      arg_startTime = ''2020-01-01T00:00:00.000Z'', arg_endTime = ''2020-01-02T00:00:00.000Z''\<rparr>"

definition args_raw :: refresh_args where
  "args_raw = args_str\<lparr>arg_dataType := ''raw''\<rparr>"


definition series_a :: "reading list" where
  "series_a =
     [\<lparr>timestamp = ''t0'', readings = [(''s1'', 1), (''s2'', 5)]\<rparr>,
      \<lparr>timestamp = ''t1'', readings = [(''s1'', 3), (''s2'', 2)]\<rparr>]"

definition series_b :: "reading list" where
  "series_b =
     [\<lparr>timestamp = ''t2'', readings = [(''s1'', 7), (''s2'', 8), (''s3'', 9), (''s4'', 6)]\<rparr>]"

text \<open>A raw series of 65536 samples of one channel.\<close>

definition series_big :: "reading list" where
  "series_big = replicate 65536 \<lparr>timestamp = ''t0'', readings = [(''s1'', 1)]\<rparr>"


text \<open>Two calls of \<^verbatim>\<open>refresh\<close> in flight, none of their fetches settled yet.\<close>

definition two_calls :: system where
  "two_calls = run env0 [Refresh args_str, Refresh args_str] (initial_system [])"

text \<open>The options the user sets while a call is in flight.\<close>

definition chart_choice :: chart_options where
  "chart_choice = \<lparr>sensors = [], showTemperature = True, temperatureData = []\<rparr>"

definition model_choice :: model_options where
  "model_choice = \<lparr>showContext = False, colourMode = 1, scale = Some [Number 0, Number 0]\<rparr>"

section \<open>Facts about the derived values\<close>

lemma allReadings_concat: "allReadings d = concat (map (\<lambda>r. map snd (readings r)) d)"
proof -
  have "foldl (\<lambda>acc r. acc @ map snd (readings r)) a d
          = a @ concat (map (\<lambda>r. map snd (readings r)) d)" for a
    by (induction d arbitrary: a) simp_all
  from this [of "[]"] show ?thesis
    by (simp add: allReadings_def)
qed

lemma length_allReadings_replicate:
  "length (allReadings (replicate n r)) = n * length (readings r)"
  by (induction n) (simp_all add: allReadings_concat)

lemma computeDataRange_within:
  "length (allReadings d) \<le> argumentLimit e \<Longrightarrow>
     computeDataRange e d = Inr [Math_min (allReadings d), Math_max (allReadings d)]"
  by (simp add: computeDataRange_def spread_call_def)

lemma computeDataRange_over:
  "argumentLimit e < length (allReadings d) \<Longrightarrow> computeDataRange e d = Inl RangeError"
  by (simp add: computeDataRange_def spread_call_def)

lemma computeDataRange_empty: "computeDataRange e [] = Inr [PlusInfinity, MinusInfinity]"
  by (simp add: computeDataRange_def spread_call_def allReadings_def)

section \<open>What one run of \<^verbatim>\<open>refresh\<close> leaves behind\<close>

lemma refresh_on_rejection:
  "refresh e args (Rejects err) fetchedT w =
     (w\<lparr>scr := (scr w)\<lparr>isLoading := False\<rparr>, console := console w @ [err]\<rparr>, Fulfilled)"
  by (simp add: refresh_def refresh_call_def refresh_fetched_def caught_def setIsLoading_def
      console_error_def)

lemma refresh_on_empty:
  "refresh e args (Resolves []) fetchedT w =
     (w\<lparr>scr := (scr w)\<lparr>data := [], dataType := arg_dataType args,
                        dataRange := [PlusInfinity, MinusInfinity],
                        mode := (if arg_dataType args = ''raw'' then 1 else mode (scr w)),
                        isLoading := False\<rparr>,
        console := console w @ [TypeError]\<rparr>, Fulfilled)"
  by (simp add: refresh_def refresh_call_def refresh_fetched_def caught_def setIsLoading_def
      console_error_def Let_def computeDataRange_empty)

lemma refresh_on_range_error:
  assumes "argumentLimit e < length (allReadings d)"
  shows "refresh e args (Resolves d) fetchedT w =
     (w\<lparr>scr := (scr w)\<lparr>data := d, dataType := arg_dataType args, isLoading := False\<rparr>,
        console := console w @ [RangeError]\<rparr>, Fulfilled)"
  by (simp add: refresh_def refresh_call_def refresh_fetched_def caught_def setIsLoading_def
      console_error_def Let_def computeDataRange_over [OF assms])

lemma refresh_on_temperature_rejection:
  assumes "length (allReadings (first # rest)) \<le> argumentLimit e"
  shows "refresh e args (Resolves (first # rest)) (Rejects err) w =
     (w\<lparr>scr := (scr w)\<lparr>data := first # rest, dataType := arg_dataType args,
                        dataRange := [Math_min (allReadings (first # rest)),
                                      Math_max (allReadings (first # rest))],
                        mode := (if arg_dataType args = ''raw'' then 1 else mode (scr w)),
                        isLoading := False\<rparr>,
        console := console w @ [err]\<rparr>, Fulfilled)"
  by (simp add: refresh_def refresh_call_def refresh_fetched_def refresh_temperature_def
      caught_def setIsLoading_def console_error_def Let_def computeDataRange_within [OF assms])

lemma refresh_on_success:
  assumes "length (allReadings (first # rest)) \<le> argumentLimit e"
  shows "refresh e args (Resolves (first # rest)) (Resolves t) w =
     (w\<lparr>scr := (scr w)\<lparr>data := first # rest, dataType := arg_dataType args,
                        dataRange := [Math_min (allReadings (first # rest)),
                                      Math_max (allReadings (first # rest))],
                        mode := (if arg_dataType args = ''raw'' then 1 else mode (scr w)),
                        chartOptions := (chartOptions (scr w))
                           \<lparr>sensors := sensorOptions e (map fst (readings first)),
                            temperatureData := t\<rparr>,
                        modelOptions := (modelOptions (scr w))
                           \<lparr>scale := modelScale e (modelOptions (scr w)) (arg_dataType args)
                                       [Math_min (allReadings (first # rest)),
                                        Math_max (allReadings (first # rest))]\<rparr>,
                        isLoading := False\<rparr>\<rparr>, Fulfilled)"
  by (simp add: refresh_def refresh_call_def refresh_fetched_def refresh_temperature_def
      caught_def setIsLoading_def console_error_def Let_def computeDataRange_within [OF assms])

lemma refresh_on_success_hd:
  assumes "d \<noteq> []" and "length (allReadings d) \<le> argumentLimit e"
  shows "refresh e args (Resolves d) (Resolves t) w =
     (w\<lparr>scr := (scr w)\<lparr>data := d, dataType := arg_dataType args,
                        dataRange := [Math_min (allReadings d), Math_max (allReadings d)],
                        mode := (if arg_dataType args = ''raw'' then 1 else mode (scr w)),
                        chartOptions := (chartOptions (scr w))
                           \<lparr>sensors := sensorOptions e (map fst (readings (hd d))),
                            temperatureData := t\<rparr>,
                        modelOptions := (modelOptions (scr w))
                           \<lparr>scale := modelScale e (modelOptions (scr w)) (arg_dataType args)
                                       [Math_min (allReadings d), Math_max (allReadings d)]\<rparr>,
                        isLoading := False\<rparr>\<rparr>, Fulfilled)"
proof -
  from assms(1) obtain first rest where d: "d = first # rest"
    by (cases d) auto
  show ?thesis
    using assms(2) unfolding d by (simp add: refresh_on_success)
qed

lemma refresh_mode_when_resolved:
  assumes "length (allReadings d) \<le> argumentLimit e"
  shows "mode (scr (fst (refresh e args (Resolves d) fetchedT w))) =
     (if arg_dataType args = ''raw'' then 1 else mode (scr w))"
proof (cases d)
  case Nil
  then show ?thesis by (simp add: refresh_on_empty)
next
  case (Cons first rest)
  with assms show ?thesis
    by (cases fetchedT) (simp_all add: refresh_on_temperature_rejection refresh_on_success)
qed

lemma refresh_dataType_when_resolved:
  "dataType (scr (fst (refresh e args (Resolves d) fetchedT w))) = arg_dataType args"
proof (cases "argumentLimit e < length (allReadings d)")
  case True
  then show ?thesis by (simp add: refresh_on_range_error)
next
  case within: False
  show ?thesis
  proof (cases d)
    case Nil
    then show ?thesis by (simp add: refresh_on_empty)
  next
    case (Cons first rest)
    with within show ?thesis
      by (cases fetchedT) (simp_all add: refresh_on_temperature_rejection refresh_on_success)
  qed
qed

subsection \<open>The channel options\<close>

lemma names_of_sensorOptions: "map name (sensorOptions e ns) = ns"
proof -
  have "map name (sensorOptions e ns) = map snd (enumerate 0 ns)"
    by (simp add: sensorOptions_def sensorOption_def case_prod_unfold comp_def)
  then show ?thesis by (simp add: map_snd_enumerate)
qed

lemma nth_sensorOptions:
  "i < length ns \<Longrightarrow> sensorOptions e ns ! i = sensorOption e i (ns ! i)"
  by (simp add: sensorOptions_def nth_enumerate_eq)

subsection \<open>The data range\<close>

lemma fold_min_Min: "fold min xs (x::real) = Min (set (x # xs))"
  by (rule Min.set_eq_fold [symmetric])

lemma fold_max_Max: "fold max xs (x::real) = Max (set (x # xs))"
  by (rule Max.set_eq_fold [symmetric])

lemma min_max_of_values:
  assumes "xs \<noteq> []"
  shows "Math_min xs = Number (Min (set xs)) \<and> Math_max xs = Number (Max (set xs))
         \<and> jsnum_le (Math_min xs) (Math_max xs)"
proof -
  from assms obtain y ys where a: "xs = y # ys"
    by (cases xs) auto
  have "Min (set (y # ys)) \<le> Max (set (y # ys))"
    by (rule Min_le) (simp_all only: List.finite_set Max_in set_empty list.distinct not_False_eq_True)
  then show ?thesis
    unfolding a Math_min.simps Math_max.simps fold_min_Min fold_max_Max
    by simp
qed

subsection \<open>The mode buttons of the menu\<close>

lemma menu_selectMode_raw:
  "dataType s = ''raw'' \<Longrightarrow> mode s = 1 \<Longrightarrow>
     dataType (fold menu_selectMode targets s) = ''raw'' \<and> mode (fold menu_selectMode targets s) = 1"
proof (induction targets arbitrary: s)
  case Nil
  then show ?case by simp
next
  case (Cons target targets)
  have "dataType (menu_selectMode target s) = ''raw''" "mode (menu_selectMode target s) = 1"
    using Cons.prems by (cases target; simp add: menu_selectMode_def)+
  then show ?case
    using Cons.IH [of "menu_selectMode target s"] by simp
qed

lemma sf_menu_selectMode_disabled:
  "\<not> sf_modelModeEnabled s \<Longrightarrow> sf_mode s = 1 \<Longrightarrow>
     \<not> sf_modelModeEnabled (fold sf_menu_selectMode targets s)
     \<and> sf_mode (fold sf_menu_selectMode targets s) = 1"
proof (induction targets arbitrary: s)
  case Nil
  then show ?case by simp
next
  case (Cons target targets)
  have "\<not> sf_modelModeEnabled (sf_menu_selectMode target s)"
       "sf_mode (sf_menu_selectMode target s) = 1"
    using Cons.prems by (cases target; simp add: sf_menu_selectMode_def)+
  then show ?case
    using Cons.IH [of "sf_menu_selectMode target s"] by simp
qed

lemma sf_refresh_raw:
  "sf_mode (fst (sf_refresh ''raw'' (Resolves d) (s, printed))) = 1
   \<and> \<not> sf_modelModeEnabled (fst (sf_refresh ''raw'' (Resolves d) (s, printed)))"
  by (simp add: sf_refresh_def Let_def)

subsection \<open>What a stretch of \<^verbatim>\<open>refresh\<close> leaves alone\<close>

lemma refresh_fetched_keeps:
  "live (scr (fst (refresh_fetched e c fetched w))) = live (scr w)"
  "liveMode (scr (fst (refresh_fetched e c fetched w))) = liveMode (scr w)"
  by (cases fetched;
      simp add: refresh_fetched_def caught_def setIsLoading_def console_error_def Let_def
        split: list.split sum.split)+

lemma refresh_fetched_rejected_keeps_data:
  "data (scr (fst (refresh_fetched e c (Rejects err) w))) = data (scr w)"
  by (simp add: refresh_fetched_def caught_def setIsLoading_def console_error_def)

lemma refresh_fetched_resolved_data:
  "data (scr (fst (refresh_fetched e c (Resolves d) w))) = d"
  by (simp add: refresh_fetched_def caught_def setIsLoading_def console_error_def Let_def
      split: list.split sum.split)

lemma refresh_temperature_keeps:
  "data (scr (fst (refresh_temperature e k fetched w))) = data (scr w)"
  "live (scr (fst (refresh_temperature e k fetched w))) = live (scr w)"
  "liveMode (scr (fst (refresh_temperature e k fetched w))) = liveMode (scr w)"
  by (cases fetched;
      simp add: refresh_temperature_def caught_def setIsLoading_def console_error_def Let_def)+

subsection \<open>Steps of the system\<close>

lemma step_FetchDataSettles_world:
  assumes "i < length (tasks sy)" and "tasks sy ! i = AwaitFetchData c"
  shows "sys_world (step e (FetchDataSettles i fetched) sy)
           = fst (refresh_fetched e c fetched (sys_world sy))"
  using assms by (simp split: prod.split sum.split)

lemma step_FetchTemperatureSettles_world:
  assumes "i < length (tasks sy)" and "tasks sy ! i = AwaitFetchTemperatureData k"
  shows "sys_world (step e (FetchTemperatureSettles i fetched) sy)
           = fst (refresh_temperature e k fetched (sys_world sy))"
  using assms by (simp split: prod.split)

lemma step_keeps_livePackages:
  "\<not> (\<exists>pkgs. ev = LivePackagesChange pkgs) \<Longrightarrow> livePackages (step e ev sy) = livePackages sy"
  by (cases ev) (auto simp: on_screen_def split: prod.split sum.split task.split)

lemma step_keeps_data:
  assumes "\<not> resolves_data ev"
  shows "data (scr (sys_world (step e ev sy))) = data (scr (sys_world sy))"
proof (cases ev)
  case (Refresh args)
  then show ?thesis
    by (simp add: refresh_call_def setIsLoading_def)
next
  case (FetchDataSettles i fetched)
  with assms obtain err where f: "fetched = Rejects err"
    by (cases fetched) auto
  show ?thesis
  proof (cases "i < length (tasks sy)")
    case True
    show ?thesis
    proof (cases "tasks sy ! i")
      case (AwaitFetchData c)
      from step_FetchDataSettles_world [OF True this, of e fetched]
      show ?thesis
        unfolding FetchDataSettles f by (simp add: refresh_fetched_rejected_keeps_data)
    qed (simp_all add: FetchDataSettles True)
  qed (simp add: FetchDataSettles)
next
  case (FetchTemperatureSettles i fetched)
  show ?thesis
  proof (cases "i < length (tasks sy)")
    case True
    show ?thesis
    proof (cases "tasks sy ! i")
      case (AwaitFetchTemperatureData k)
      from step_FetchTemperatureSettles_world [OF True this, of e fetched]
      show ?thesis
        unfolding FetchTemperatureSettles by (simp add: refresh_temperature_keeps)
    qed (simp_all add: FetchTemperatureSettles True)
  qed (simp add: FetchTemperatureSettles)
next
  case (LivePackagesChange pkgs)
  then show ?thesis by (simp add: on_screen_def livePackagesEffect_def Let_def)
qed (simp_all add: on_screen_def)

lemma run_keeps_data:
  "\<forall>ev \<in> set evs. \<not> resolves_data ev \<Longrightarrow>
     data (scr (sys_world (run e evs sy))) = data (scr (sys_world sy))"
  by (induction evs arbitrary: sy) (simp_all add: step_keeps_data)

subsection \<open>Live mode along a run\<close>

lemma step_keeps_live_invariant:
  assumes "live_invariant e sy"
    and "case ev of SetLiveMode m \<Rightarrow> m \<noteq> 0 \<or> live (scr (sys_world sy)) | _ \<Rightarrow> True"
  shows "live_invariant e (step e ev sy)"
proof (cases ev)
  case (Refresh args)
  then show ?thesis
    using assms(1) by (simp add: live_invariant_def refresh_call_def setIsLoading_def)
next
  case (FetchDataSettles i fetched)
  show ?thesis
  proof (cases "i < length (tasks sy)")
    case True
    show ?thesis
    proof (cases "tasks sy ! i")
      case (AwaitFetchData c)
      from step_FetchDataSettles_world [OF True this, of e fetched] assms(1)
      show ?thesis
        unfolding FetchDataSettles live_invariant_def
        by (simp add: refresh_fetched_keeps step_keeps_livePackages del: step.simps)
    qed (use assms(1) in \<open>simp_all add: FetchDataSettles True\<close>)
  qed (use assms(1) in \<open>simp add: FetchDataSettles\<close>)
next
  case (FetchTemperatureSettles i fetched)
  show ?thesis
  proof (cases "i < length (tasks sy)")
    case True
    show ?thesis
    proof (cases "tasks sy ! i")
      case (AwaitFetchTemperatureData k)
      from step_FetchTemperatureSettles_world [OF True this, of e fetched] assms(1)
      show ?thesis
        unfolding FetchTemperatureSettles live_invariant_def
        by (simp add: refresh_temperature_keeps step_keeps_livePackages del: step.simps)
    qed (use assms(1) in \<open>simp_all add: FetchTemperatureSettles True\<close>)
  qed (use assms(1) in \<open>simp add: FetchTemperatureSettles\<close>)
next
  case (LivePackagesChange pkgs)
  then show ?thesis
    by (simp add: live_invariant_def on_screen_def livePackagesEffect_def Let_def)
next
  case (SetLiveMode m)
  then show ?thesis
    using assms by (auto simp: live_invariant_def on_screen_def)
qed (use assms(1) in \<open>simp_all add: live_invariant_def on_screen_def\<close>)

lemma run_keeps_live_invariant:
  "live_invariant e sy \<Longrightarrow> goes_live_only_when_live e evs sy \<Longrightarrow>
     live_invariant e (run e evs sy)"
proof (induction evs arbitrary: sy)
  case Nil
  then show ?case by simp
next
  case (Cons ev evs)
  from Cons.prems have "live_invariant e (step e ev sy)"
    by (intro step_keeps_live_invariant) simp_all
  with Cons show ?case by simp
qed

lemma initial_live_invariant: "live_invariant e (initial_system pkgs)"
  by (simp add: live_invariant_def initial_system_def initial_world_def initial_screen_def)

subsection \<open>One call among others\<close>

lemma run_append: "run e (evs @ evs') sy = run e evs' (run e evs sy)"
  by (induction evs arbitrary: sy) simp_all

lemma step_keeps_task:
  assumes "i < length (tasks sy)" and "\<not> settles i ev"
  shows "i < length (tasks (step e ev sy)) \<and> tasks (step e ev sy) ! i = tasks sy ! i"
proof (cases ev)
  case (Refresh args)
  with assms(1) show ?thesis
    by (simp add: refresh_call_def nth_append)
next
  case (FetchDataSettles j fetched)
  with assms have "i \<noteq> j" by simp
  with assms(1) show ?thesis
    unfolding FetchDataSettles by (simp split: task.split prod.split sum.split)
next
  case (FetchTemperatureSettles j fetched)
  with assms have "i \<noteq> j" by simp
  with assms(1) show ?thesis
    unfolding FetchTemperatureSettles by (simp split: task.split prod.split)
qed (use assms(1) in \<open>simp_all add: on_screen_def\<close>)

lemma run_keeps_task:
  "i < length (tasks sy) \<Longrightarrow> \<forall>ev \<in> set evs. \<not> settles i ev \<Longrightarrow>
     i < length (tasks (run e evs sy)) \<and> tasks (run e evs sy) ! i = tasks sy ! i"
proof (induction evs arbitrary: sy)
  case Nil
  then show ?case by simp
next
  case (Cons ev evs)
  from Cons.prems have s: "i < length (tasks (step e ev sy))"
      "tasks (step e ev sy) ! i = tasks sy ! i"
    using step_keeps_task [of i sy ev e] by simp_all
  from Cons.IH [OF s(1)] Cons.prems(2) s(2) show ?case
    by simp
qed

lemma step_Refresh_task:
  "length (tasks (step e (Refresh args) sy)) = Suc (length (tasks sy))
   \<and> tasks (step e (Refresh args) sy) ! length (tasks sy)
       = AwaitFetchData \<lparr>cl_args = args, cl_chartOptions = chartOptions (scr (sys_world sy)),
                          cl_modelOptions = modelOptions (scr (sys_world sy))\<rparr>"
  by (simp add: refresh_call_def)

lemma step_data_resolves_task:
  assumes "i < length (tasks sy)" and "tasks sy ! i = AwaitFetchData c"
    and "d \<noteq> []" and "length (allReadings d) \<le> argumentLimit e"
  shows "i < length (tasks (step e (FetchDataSettles i (Resolves d)) sy))
       \<and> tasks (step e (FetchDataSettles i (Resolves d)) sy) ! i
           = AwaitFetchTemperatureData
               \<lparr>k_closure = c,
                k_dataRange = [Math_min (allReadings d), Math_max (allReadings d)],
                k_sensors = sensorOptions e (map fst (readings (hd d)))\<rparr>"
proof -
  from assms(3) obtain first rest where d: "d = first # rest"
    by (cases d) auto
  show ?thesis
    using assms(1,2,4) unfolding d
    by (simp add: refresh_fetched_def Let_def computeDataRange_within)
qed

lemma step_temperature_resolves_options:
  assumes "i < length (tasks sy)" and "tasks sy ! i = AwaitFetchTemperatureData k"
  shows "chartOptions (scr (sys_world (step e (FetchTemperatureSettles i (Resolves t)) sy)))
           = (cl_chartOptions (k_closure k))\<lparr>sensors := k_sensors k, temperatureData := t\<rparr>
       \<and> modelOptions (scr (sys_world (step e (FetchTemperatureSettles i (Resolves t)) sy)))
           = (cl_modelOptions (k_closure k))
               \<lparr>scale := modelScale e (cl_modelOptions (k_closure k))
                           (arg_dataType (cl_args (k_closure k))) (k_dataRange k)\<rparr>
       \<and> console (sys_world (step e (FetchTemperatureSettles i (Resolves t)) sy))
           = console (sys_world sy)
       \<and> tasks (step e (FetchTemperatureSettles i (Resolves t)) sy) ! i = Settled Fulfilled"
  using assms by (simp add: refresh_temperature_def Let_def setIsLoading_def)

text \<open>
  A call is made, the two fetches of this call resolve, and whatever else happens in
  between (other calls, settlements of their fetches, the menu's setters, changes of the
  live packages): when the call ends, the options are those of the state at the call,
  with the sensors of the call's own series, the temperatures and the scale replaced.
\<close>

lemma call_runs_to_end:
  assumes "d \<noteq> []" and "length (allReadings d) \<le> argumentLimit e"
    and "\<forall>ev \<in> set evs1. \<not> settles (length (tasks sy)) ev"
    and "\<forall>ev \<in> set evs2. \<not> settles (length (tasks sy)) ev"
  shows "chartOptions (scr (sys_world (run e
            (Refresh args # evs1 @ FetchDataSettles (length (tasks sy)) (Resolves d) # evs2
               @ [FetchTemperatureSettles (length (tasks sy)) (Resolves t)]) sy)))
           = (chartOptions (scr (sys_world sy)))
               \<lparr>sensors := sensorOptions e (map fst (readings (hd d))), temperatureData := t\<rparr>
       \<and> modelOptions (scr (sys_world (run e
            (Refresh args # evs1 @ FetchDataSettles (length (tasks sy)) (Resolves d) # evs2
               @ [FetchTemperatureSettles (length (tasks sy)) (Resolves t)]) sy)))
           = (modelOptions (scr (sys_world sy)))
               \<lparr>scale := modelScale e (modelOptions (scr (sys_world sy))) (arg_dataType args)
                           [Math_min (allReadings d), Math_max (allReadings d)]\<rparr>
       \<and> console (sys_world (run e
            (Refresh args # evs1 @ FetchDataSettles (length (tasks sy)) (Resolves d) # evs2
               @ [FetchTemperatureSettles (length (tasks sy)) (Resolves t)]) sy))
           = console (sys_world (run e
            (Refresh args # evs1 @ FetchDataSettles (length (tasks sy)) (Resolves d) # evs2) sy))
       \<and> tasks (run e
            (Refresh args # evs1 @ FetchDataSettles (length (tasks sy)) (Resolves d) # evs2
               @ [FetchTemperatureSettles (length (tasks sy)) (Resolves t)]) sy) ! length (tasks sy)
           = Settled Fulfilled"
proof -
  let ?i = "length (tasks sy)"
  let ?c = "\<lparr>cl_args = args, cl_chartOptions = chartOptions (scr (sys_world sy)),
             cl_modelOptions = modelOptions (scr (sys_world sy))\<rparr>"
  let ?k = "\<lparr>k_closure = ?c,
             k_dataRange = [Math_min (allReadings d), Math_max (allReadings d)],
             k_sensors = sensorOptions e (map fst (readings (hd d)))\<rparr>"
  define s1 where "s1 = step e (Refresh args) sy"
  define s2 where "s2 = run e evs1 s1"
  define s3 where "s3 = step e (FetchDataSettles ?i (Resolves d)) s2"
  define s4 where "s4 = run e evs2 s3"
  have t1: "?i < length (tasks s1)" "tasks s1 ! ?i = AwaitFetchData ?c"
    using step_Refresh_task [of e args sy] by (simp_all add: s1_def)
  have t2: "?i < length (tasks s2)" "tasks s2 ! ?i = AwaitFetchData ?c"
    using run_keeps_task [OF t1(1) assms(3), of e] t1(2) by (simp_all add: s2_def)
  have t3: "?i < length (tasks s3)" "tasks s3 ! ?i = AwaitFetchTemperatureData ?k"
    using step_data_resolves_task [OF t2 assms(1,2)] by (simp_all add: s3_def)
  have t4: "?i < length (tasks s4)" "tasks s4 ! ?i = AwaitFetchTemperatureData ?k"
    using run_keeps_task [OF t3(1) assms(4), of e] t3(2) by (simp_all add: s4_def)
  have before: "run e (Refresh args # evs1 @ FetchDataSettles ?i (Resolves d) # evs2) sy = s4"
    by (simp add: run_append s1_def s2_def s3_def s4_def del: step.simps)
  have whole: "run e (Refresh args # evs1 @ FetchDataSettles ?i (Resolves d) # evs2
                 @ [FetchTemperatureSettles ?i (Resolves t)]) sy
               = step e (FetchTemperatureSettles ?i (Resolves t)) s4"
    by (simp add: run_append s1_def s2_def s3_def s4_def del: step.simps)
  show ?thesis
    unfolding whole before using step_temperature_resolves_options [OF t4, of e t]
    by simp
qed

subsection \<open>Values at the concrete inputs\<close>

lemma limit_env0: "argumentLimit env0 = 65535"
  by (simp add: env0_def)

lemma sensorOptions_of_two:
  "sensorOptions env0 [''s1'', ''s2'']
     = [\<lparr>name = ''s1'', isSelected = True, colour = Some ''red''\<rparr>,
        \<lparr>name = ''s2'', isSelected = True, colour = Some ''green''\<rparr>]"
  by (simp add: sensorOptions_def sensorOption_def paletteColour_def env0_def)

lemma sensorOptions_of_four:
  "sensorOptions env0 [''s1'', ''s2'', ''s3'', ''s4'']
     = [\<lparr>name = ''s1'', isSelected = True, colour = Some ''red''\<rparr>,
        \<lparr>name = ''s2'', isSelected = True, colour = Some ''green''\<rparr>,
        \<lparr>name = ''s3'', isSelected = True, colour = Some ''red''\<rparr>,
        \<lparr>name = ''s4'', isSelected = False, colour = Some ''green''\<rparr>]"
  by (simp add: sensorOptions_def sensorOption_def paletteColour_def env0_def mod_Suc)

lemmas run_at_inputs =
  initial_system_def initial_world_def initial_screen_def refresh_call_def refresh_fetched_def
  refresh_temperature_def setIsLoading_def series_a_def series_b_def Let_def
  computeDataRange_def spread_call_def allReadings_def limit_env0 sensorOptions_of_two
  sensorOptions_of_four on_screen_def

section \<open>Responses that settle out of order\<close>

text \<open>
  Claim C1, as the code has it. The code keeps no sequence number: every response of
  \<^verbatim>\<open>fetchData\<close> that resolves is stored by \<^verbatim>\<open>setData\<close> when it arrives. So when the
  response of a waiting call (whatever its position among the calls) resolves to a
  series \<open>d\<close>, and no response of \<^verbatim>\<open>fetchData\<close> resolves after it, the series of the
  screen is \<open>d\<close> at the end of the run: the response that resolved last is the one
  shown.
\<close>

theorem last_resolved_series_is_committed:
  assumes "i < length (tasks sy)" and "tasks sy ! i = AwaitFetchData c"
    and "\<forall>ev \<in> set evs. \<not> resolves_data ev"
  shows "data (scr (sys_world (run e (FetchDataSettles i (Resolves d) # evs) sy))) = d"
proof -
  have "data (scr (sys_world (step e (FetchDataSettles i (Resolves d)) sy))) = d"
    using step_FetchDataSettles_world [OF assms(1,2), of e "Resolves d"]
    by (simp add: refresh_fetched_resolved_data)
  with run_keeps_data [OF assms(3)] show ?thesis
    by simp
qed

text \<open>
  Two calls are in flight; the second call's series arrives, then its temperatures, then
  the first call's fetch fails: the second call's series stays.
\<close>

theorem last_resolved_series_is_committed_witness:
  "1 < length (tasks two_calls)
   \<and> \<not> resolves_data (FetchTemperatureSettles 1 (Resolves []))
   \<and> \<not> resolves_data (FetchDataSettles 0 (Rejects FetchError))
   \<and> data (scr (sys_world (run env0
        [FetchDataSettles 1 (Resolves series_b), FetchTemperatureSettles 1 (Resolves []),
         FetchDataSettles 0 (Rejects FetchError)] two_calls))) = series_b"
proof -
  have len: "1 < length (tasks two_calls)"
    by (simp add: two_calls_def initial_system_def refresh_call_def)
  have aw: "tasks two_calls ! 1 = AwaitFetchData (snd (refresh_call args_str
              (fst (refresh_call args_str initial_world))))"
    by (simp add: two_calls_def initial_system_def refresh_call_def)
  have quiet: "\<forall>ev \<in> set [FetchTemperatureSettles 1 (Resolves []),
      FetchDataSettles 0 (Rejects FetchError)]. \<not> resolves_data ev"
    by simp
  show ?thesis
    using len quiet last_resolved_series_is_committed [OF len aw quiet, of env0 series_b]
    by simp
qed

text \<open>
  The regression test of the claim: calls 1 and 2 are issued in this order (positions 0
  and 1), the response of call 2 resolves with \<open>series_b\<close> and is stored, and then the
  response of call 1 resolves with \<open>series_a\<close>. When every fetch has settled the screen
  shows the series of call 1, not that of the call issued last.
\<close>

theorem stale_response_overwrites:
  "data (scr (sys_world (run env0
      [Refresh args_str, Refresh args_str,
       FetchDataSettles 1 (Resolves series_b), FetchTemperatureSettles 1 (Resolves []),
       FetchDataSettles 0 (Resolves series_a), FetchTemperatureSettles 0 (Resolves [])]
      (initial_system [])))) = series_a
   \<and> series_a \<noteq> series_b
   \<and> tasks (run env0
      [Refresh args_str, Refresh args_str,
       FetchDataSettles 1 (Resolves series_b), FetchTemperatureSettles 1 (Resolves []),
       FetchDataSettles 0 (Resolves series_a), FetchTemperatureSettles 0 (Resolves [])]
      (initial_system [])) = [Settled Fulfilled, Settled Fulfilled]"
  by (simp add: initial_system_def refresh_call_def refresh_fetched_def refresh_temperature_def
      setIsLoading_def series_a_def series_b_def Let_def computeDataRange_def spread_call_def
      allReadings_def env0_def)

section \<open>The data range\<close>

text \<open>
  The range of a series that holds at least one channel value, and no more of them than
  one call accepts, is the pair of the least and the greatest of all its channel values,
  the first not above the second.
\<close>

lemma dataRange_of_series_with_values:
  assumes "allReadings (first # rest) \<noteq> []"
    and "length (allReadings (first # rest)) \<le> argumentLimit e"
  shows "dataRange (scr (fst (refresh e args (Resolves (first # rest)) fetchedT w)))
           = [Number (Min (set (allReadings (first # rest)))),
              Number (Max (set (allReadings (first # rest))))]
       \<and> Min (set (allReadings (first # rest))) \<le> Max (set (allReadings (first # rest)))"
proof -
  have stored: "dataRange (scr (fst (refresh e args (Resolves (first # rest)) fetchedT w)))
          = [Math_min (allReadings (first # rest)), Math_max (allReadings (first # rest))]"
    using assms(2)
    by (cases fetchedT) (simp_all add: refresh_on_temperature_rejection refresh_on_success)
  from min_max_of_values [OF assms(1)]
  have lo: "Math_min (allReadings (first # rest)) = Number (Min (set (allReadings (first # rest))))"
    and hi: "Math_max (allReadings (first # rest)) = Number (Max (set (allReadings (first # rest))))"
    and le: "jsnum_le (Math_min (allReadings (first # rest))) (Math_max (allReadings (first # rest)))"
    by blast+
  from le have "Min (set (allReadings (first # rest))) \<le> Max (set (allReadings (first # rest)))"
    unfolding lo hi by simp
  then show ?thesis
    unfolding stored lo hi by simp
qed

text \<open>
  Claim C2, at the empty series. \<^verbatim>\<open>Math.min\<close> and \<^verbatim>\<open>Math.max\<close> are called on no
  arguments, so the range that \<^verbatim>\<open>setDataRange\<close> stores is \<^verbatim>\<open>[Infinity, -Infinity]\<close>: it is
  not \<^verbatim>\<open>[0, 0]\<close>, and its first component is above its second.
\<close>

theorem empty_series_range_is_infinities:
  "computeDataRange e [] = Inr [PlusInfinity, MinusInfinity]
   \<and> dataRange (scr (fst (refresh e args (Resolves []) fetchedT w))) = [PlusInfinity, MinusInfinity]
   \<and> \<not> jsnum_le PlusInfinity MinusInfinity"
  by (simp add: refresh_on_empty computeDataRange_empty)

section \<open>The empty series\<close>

text \<open>
  Claim C3, at the empty series. The first element of the series is destructured
  without a check: on the empty series this throws a \<^verbatim>\<open>TypeError\<close>, which the
  \<^verbatim>\<open>catch\<close> block prints. The empty series has been stored by then, and the chart
  options are left as they were: after a series with the channels \<open>s1\<close> and \<open>s2\<close>, the
  empty series is shown with the options of these two channels.
\<close>

theorem empty_series_throws_and_keeps_options:
  "console (fst (refresh e args (Resolves []) fetchedT w)) = console w @ [TypeError]
   \<and> data (scr (fst (refresh e args (Resolves []) fetchedT w))) = []
   \<and> chartOptions (scr (fst (refresh e args (Resolves []) fetchedT w))) = chartOptions (scr w)
   \<and> sensors (chartOptions (scr (fst (refresh env0 args_str (Resolves []) (Resolves [])
         (fst (refresh env0 args_str (Resolves series_a) (Resolves []) initial_world))))))
       = [\<lparr>name = ''s1'', isSelected = True, colour = Some ''red''\<rparr>,
          \<lparr>name = ''s2'', isSelected = True, colour = Some ''green''\<rparr>]"
proof -
  have "length (allReadings series_a) \<le> argumentLimit env0"
    by (simp add: series_a_def allReadings_def env0_def)
  then have "sensors (chartOptions (scr (fst
      (refresh env0 args_str (Resolves series_a) (Resolves []) initial_world))))
      = [\<lparr>name = ''s1'', isSelected = True, colour = Some ''red''\<rparr>,
         \<lparr>name = ''s2'', isSelected = True, colour = Some ''green''\<rparr>]"
    by (simp add: refresh_on_success_hd series_a_def sensorOptions_def sensorOption_def
        paletteColour_def env0_def enumerate_eq_zip upt_rec)
  then show ?thesis
    by (simp add: refresh_on_empty)
qed

section \<open>A fetch that fails\<close>

text \<open>
  Claim C4, as the code has it. When \<^verbatim>\<open>fetchData\<close> rejects, the series and every other
  state cell are as before the call, except that \<^verbatim>\<open>isLoading\<close> is false; the error is
  printed by \<^verbatim>\<open>console.error\<close>; the function ends there (nothing more is awaited, so
  nothing is fetched again); and its own promise is fulfilled: the error does not reach
  the caller.
\<close>

theorem fetch_error_leaves_state:
  "refresh e args (Rejects err) fetchedT w =
     (w\<lparr>scr := (scr w)\<lparr>isLoading := False\<rparr>, console := console w @ [err]\<rparr>, Fulfilled)
   \<and> refresh_fetched e c (Rejects err) w =
     (w\<lparr>scr := (scr w)\<lparr>isLoading := False\<rparr>, console := console w @ [err]\<rparr>, Inl Fulfilled)"
  by (simp add: refresh_on_rejection refresh_fetched_def caught_def setIsLoading_def
      console_error_def)

text \<open>
  The promise of a \<^verbatim>\<open>refresh\<close> whose fetch fails is not rejected with the error. And
  when it is the fetch of the temperatures that fails, the new series has been stored
  already.
\<close>

theorem fetch_error_not_propagated:
  "snd (refresh env0 args_str (Rejects FetchError) (Resolves []) initial_world)
     \<noteq> RejectedWith FetchError
   \<and> data (scr (fst (refresh env0 args_str (Resolves series_a) (Rejects FetchError) initial_world)))
     \<noteq> data (scr initial_world)"
proof -
  have "length (allReadings series_a) \<le> argumentLimit env0"
    by (simp add: series_a_def allReadings_def env0_def)
  then have "data (scr (fst (refresh env0 args_str (Resolves series_a) (Rejects FetchError)
      initial_world))) = series_a"
    by (simp add: refresh_on_temperature_rejection series_a_def)
  then show ?thesis
    by (simp add: refresh_on_rejection series_a_def initial_world_def initial_screen_def)
qed

section \<open>The raw data type and the chart\<close>

text \<open>
  When \<^verbatim>\<open>fetchData\<close> of a call for the data type \<^verbatim>\<open>raw\<close> resolves to a series with no
  more channel values than one call accepts, the render mode is Chart (1) afterwards,
  whatever it was and however the rest of the call goes; and whatever mode buttons the
  user then presses in the menu (as modelled from the spec), the mode stays Chart. On the
  steel frame screen, whose \<^verbatim>\<open>refresh\<close> computes no range, this holds for every series.
\<close>

lemma raw_within_limit_forces_chart:
  assumes "arg_dataType args = ''raw''" and "length (allReadings d) \<le> argumentLimit e"
  shows "mode (scr (fst (refresh e args (Resolves d) fetchedT w))) = 1
       \<and> mode (fold menu_selectMode targets
                 (scr (fst (refresh e args (Resolves d) fetchedT w)))) = 1"
proof -
  let ?s = "scr (fst (refresh e args (Resolves d) fetchedT w))"
  have m: "mode ?s = 1"
    using assms by (simp add: refresh_mode_when_resolved)
  have t: "dataType ?s = ''raw''"
    using assms(1) by (simp add: refresh_dataType_when_resolved)
  from menu_selectMode_raw [OF t m] m show ?thesis
    by simp
qed

lemma steel_frame_raw_forces_chart:
  "sf_mode (fst (sf_refresh ''raw'' (Resolves d) (s, printed))) = 1
   \<and> sf_mode (fold sf_menu_selectMode targets
                (fst (sf_refresh ''raw'' (Resolves d) (s, printed)))) = 1"
  using sf_refresh_raw [of d s printed]
    sf_menu_selectMode_disabled [of "fst (sf_refresh ''raw'' (Resolves d) (s, printed))" targets]
  by simp

text \<open>
  Claim C5, at a raw series with more channel values than one call accepts. The series
  and the data type \<^verbatim>\<open>raw\<close> are stored; then \<^verbatim>\<open>Math.min(...allReadings)\<close> throws a
  \<^verbatim>\<open>RangeError\<close>, before \<^verbatim>\<open>setMode(1)\<close> is reached: the \<^verbatim>\<open>catch\<close> block prints the error,
  and the render mode is what it was, Model included.
\<close>

theorem raw_series_over_limit_keeps_mode:
  assumes "arg_dataType args = ''raw''" and "argumentLimit e < length (allReadings d)"
  shows "mode (scr (fst (refresh e args (Resolves d) fetchedT w))) = mode (scr w)
       \<and> data (scr (fst (refresh e args (Resolves d) fetchedT w))) = d
       \<and> dataType (scr (fst (refresh e args (Resolves d) fetchedT w))) = ''raw''
       \<and> console (fst (refresh e args (Resolves d) fetchedT w)) = console w @ [RangeError]"
  using assms by (simp add: refresh_on_range_error)

text \<open>
  65536 raw samples of one channel, on an engine that accepts 65535 arguments, from the
  initial state: the raw series is on the screen in Model mode (0).
\<close>

theorem raw_series_over_limit_keeps_mode_witness:
  "arg_dataType args_raw = ''raw''
   \<and> argumentLimit env0 < length (allReadings series_big)
   \<and> mode (scr (fst (refresh env0 args_raw (Resolves series_big) (Resolves []) initial_world))) = 0
   \<and> dataType (scr (fst (refresh env0 args_raw (Resolves series_big) (Resolves [])
        initial_world))) = ''raw''"
proof -
  have raw: "arg_dataType args_raw = ''raw''"
    by (simp add: args_raw_def)
  have over: "argumentLimit env0 < length (allReadings series_big)"
    by (simp add: series_big_def length_allReadings_replicate env0_def)
  show ?thesis
    using raw over
      raw_series_over_limit_keeps_mode [OF raw over, of "Resolves []" initial_world]
    by (simp add: initial_world_def initial_screen_def)
qed

section \<open>The channel options\<close>

text \<open>
  Claim C6, as the code has it. The channel options are stored at one moment only: when
  a call ends, both of its fetches having resolved. Take a call made in any state, whose
  \<^verbatim>\<open>fetchData\<close> resolves to a series \<open>d\<close> that is not empty and has no more channel values
  than one call accepts, and whose \<^verbatim>\<open>fetchTemperatureData\<close> resolves; let anything else
  happen in between (other calls, their settlements, the menu's setters). When the call
  ends, with a palette that is not empty: the names of the channel options are the keys
  of the first reading of \<open>d\<close>, in their order; option \<open>j\<close> is selected exactly when
  \<open>j < 3\<close>; and its colour is the palette's entry \<open>j mod\<close> the palette's length.
\<close>

theorem channel_options_of_call:
  assumes "d \<noteq> []" and "length (allReadings d) \<le> argumentLimit e"
    and "chartColours e \<noteq> []"
    and "\<forall>ev \<in> set evs1. \<not> settles (length (tasks sy)) ev"
    and "\<forall>ev \<in> set evs2. \<not> settles (length (tasks sy)) ev"
  shows "map name (sensors (chartOptions (scr (sys_world (run e
            (Refresh args # evs1 @ FetchDataSettles (length (tasks sy)) (Resolves d) # evs2
               @ [FetchTemperatureSettles (length (tasks sy)) (Resolves t)]) sy)))))
           = map fst (readings (hd d))
       \<and> (\<forall>j < length (readings (hd d)).
            isSelected (sensors (chartOptions (scr (sys_world (run e
              (Refresh args # evs1 @ FetchDataSettles (length (tasks sy)) (Resolves d) # evs2
                 @ [FetchTemperatureSettles (length (tasks sy)) (Resolves t)]) sy)))) ! j)
              = (j < 3)
            \<and> colour (sensors (chartOptions (scr (sys_world (run e
              (Refresh args # evs1 @ FetchDataSettles (length (tasks sy)) (Resolves d) # evs2
                 @ [FetchTemperatureSettles (length (tasks sy)) (Resolves t)]) sy)))) ! j)
              = Some (chartColours e ! (j mod length (chartColours e))))"
proof -
  from call_runs_to_end [OF assms(1,2,4,5), of args t]
  have "sensors (chartOptions (scr (sys_world (run e
            (Refresh args # evs1 @ FetchDataSettles (length (tasks sy)) (Resolves d) # evs2
               @ [FetchTemperatureSettles (length (tasks sy)) (Resolves t)]) sy))))
          = sensorOptions e (map fst (readings (hd d)))"
    by simp
  then show ?thesis
    using assms(3)
    by (simp add: names_of_sensorOptions nth_sensorOptions sensorOption_def paletteColour_def
        del: run.simps)
qed

text \<open>
  The call at position 0 is for \<open>series_b\<close>; a second call is made, its series arrives
  and it ends, while the first call is under way.
\<close>

theorem channel_options_of_call_witness:
  "series_b \<noteq> [] \<and> length (allReadings series_b) \<le> argumentLimit env0
   \<and> chartColours env0 \<noteq> []
   \<and> \<not> settles 0 (Refresh args_str) \<and> \<not> settles 0 (FetchDataSettles 1 (Resolves series_a))
   \<and> \<not> settles 0 (FetchTemperatureSettles 1 (Resolves []))
   \<and> map name (sensors (chartOptions (scr (sys_world (run env0
        [Refresh args_str, Refresh args_str, FetchDataSettles 1 (Resolves series_a),
         FetchDataSettles 0 (Resolves series_b), FetchTemperatureSettles 1 (Resolves []),
         FetchTemperatureSettles 0 (Resolves [])] (initial_system []))))))
       = [''s1'', ''s2'', ''s3'', ''s4'']
   \<and> map isSelected (sensors (chartOptions (scr (sys_world (run env0
        [Refresh args_str, Refresh args_str, FetchDataSettles 1 (Resolves series_a),
         FetchDataSettles 0 (Resolves series_b), FetchTemperatureSettles 1 (Resolves []),
         FetchTemperatureSettles 0 (Resolves [])] (initial_system []))))))
       = [True, True, True, False]
   \<and> map colour (sensors (chartOptions (scr (sys_world (run env0
        [Refresh args_str, Refresh args_str, FetchDataSettles 1 (Resolves series_a),
         FetchDataSettles 0 (Resolves series_b), FetchTemperatureSettles 1 (Resolves []),
         FetchTemperatureSettles 0 (Resolves [])] (initial_system []))))))
       = [Some ''red'', Some ''green'', Some ''red'', Some ''green'']"
proof -
  have ne: "series_b \<noteq> []"
    by (simp add: series_b_def)
  have lim: "length (allReadings series_b) \<le> argumentLimit env0"
    by (simp add: series_b_def allReadings_def env0_def)
  have pal: "chartColours env0 \<noteq> []"
    by (simp add: env0_def)
  have q1: "\<forall>ev \<in> set [Refresh args_str, FetchDataSettles 1 (Resolves series_a)].
      \<not> settles (length (tasks (initial_system []))) ev"
    by (simp add: initial_system_def)
  have q2: "\<forall>ev \<in> set [FetchTemperatureSettles 1 (Resolves [])].
      \<not> settles (length (tasks (initial_system []))) ev"
    by (simp add: initial_system_def)
  have sens: "sensors (chartOptions (scr (sys_world (run env0
        [Refresh args_str, Refresh args_str, FetchDataSettles 1 (Resolves series_a),
         FetchDataSettles 0 (Resolves series_b), FetchTemperatureSettles 1 (Resolves []),
         FetchTemperatureSettles 0 (Resolves [])] (initial_system [])))))
      = [\<lparr>name = ''s1'', isSelected = True, colour = Some ''red''\<rparr>,
         \<lparr>name = ''s2'', isSelected = True, colour = Some ''green''\<rparr>,
         \<lparr>name = ''s3'', isSelected = True, colour = Some ''red''\<rparr>,
         \<lparr>name = ''s4'', isSelected = False, colour = Some ''green''\<rparr>]"
    by (simp add: run_at_inputs)
  show ?thesis
    using ne lim pal sens channel_options_of_call [OF ne lim pal q1 q2, of args_str "[]"]
    by (simp del: run.simps)
qed

text \<open>
  Three committed series that are not empty, with options that are not those of their
  first reading. Two calls overlap and both end well: the series on the screen is
  \<open>series_b\<close> (channels \<open>s1\<close> to \<open>s4\<close>), the options are those of \<open>series_a\<close>. The fetch of
  the temperatures fails: \<open>series_b\<close> is on the screen with no options. The series has
  more channel values than one call accepts: it is on the screen with no options.
\<close>

theorem options_of_another_series:
  "data (scr (sys_world (run env0
      [Refresh args_str, Refresh args_str, FetchDataSettles 0 (Resolves series_a),
       FetchDataSettles 1 (Resolves series_b), FetchTemperatureSettles 1 (Resolves []),
       FetchTemperatureSettles 0 (Resolves [])] (initial_system [])))) = series_b
   \<and> map name (sensors (chartOptions (scr (sys_world (run env0
      [Refresh args_str, Refresh args_str, FetchDataSettles 0 (Resolves series_a),
       FetchDataSettles 1 (Resolves series_b), FetchTemperatureSettles 1 (Resolves []),
       FetchTemperatureSettles 0 (Resolves [])] (initial_system [])))))) = [''s1'', ''s2'']
   \<and> map fst (readings (hd series_b)) = [''s1'', ''s2'', ''s3'', ''s4'']
   \<and> data (scr (fst (refresh env0 args_str (Resolves series_b) (Rejects FetchError)
        initial_world))) = series_b
   \<and> sensors (chartOptions (scr (fst (refresh env0 args_str (Resolves series_b)
        (Rejects FetchError) initial_world)))) = []
   \<and> data (scr (fst (refresh env0 args_raw (Resolves series_big) (Resolves [])
        initial_world))) = series_big
   \<and> series_big \<noteq> []
   \<and> sensors (chartOptions (scr (fst (refresh env0 args_raw (Resolves series_big)
        (Resolves []) initial_world)))) = []"
proof -
  have overlap: "data (scr (sys_world (run env0
      [Refresh args_str, Refresh args_str, FetchDataSettles 0 (Resolves series_a),
       FetchDataSettles 1 (Resolves series_b), FetchTemperatureSettles 1 (Resolves []),
       FetchTemperatureSettles 0 (Resolves [])] (initial_system [])))) = series_b
   \<and> map name (sensors (chartOptions (scr (sys_world (run env0
      [Refresh args_str, Refresh args_str, FetchDataSettles 0 (Resolves series_a),
       FetchDataSettles 1 (Resolves series_b), FetchTemperatureSettles 1 (Resolves []),
       FetchTemperatureSettles 0 (Resolves [])] (initial_system [])))))) = [''s1'', ''s2'']
   \<and> map fst (readings (hd series_b)) = [''s1'', ''s2'', ''s3'', ''s4'']"
    by (simp add: run_at_inputs)
  have lim: "length (allReadings series_b) \<le> argumentLimit env0"
    by (simp add: series_b_def allReadings_def env0_def)
  have rejected: "data (scr (fst (refresh env0 args_str (Resolves series_b) (Rejects FetchError)
        initial_world))) = series_b
   \<and> sensors (chartOptions (scr (fst (refresh env0 args_str (Resolves series_b)
        (Rejects FetchError) initial_world)))) = []"
    using lim
    by (simp add: series_b_def refresh_on_temperature_rejection initial_world_def
        initial_screen_def)
  have over: "argumentLimit env0 < length (allReadings series_big)"
    by (simp add: series_big_def length_allReadings_replicate env0_def)
  have neq: "series_big \<noteq> []"
    by (simp add: series_big_def)
  have big: "data (scr (fst (refresh env0 args_raw (Resolves series_big) (Resolves [])
        initial_world))) = series_big
   \<and> series_big \<noteq> []
   \<and> sensors (chartOptions (scr (fst (refresh env0 args_raw (Resolves series_big)
        (Resolves []) initial_world)))) = []"
    unfolding refresh_on_range_error [OF over]
    using neq by (simp add: initial_world_def initial_screen_def)
  from overlap rejected big show ?thesis
    by (elim conjE) (intro conjI; assumption)
qed

section \<open>A package that stops being live\<close>

text \<open>
  Claim C7. When the list of live packages changes to one that does not hold the
  package of the screen, the effect sets the live mode to Historical (1) and \<^verbatim>\<open>live\<close> to
  false, whatever the live mode was: in particular when the package was live and the
  user had chosen Live.
\<close>

theorem not_live_forces_historical:
  assumes "packageServerName e \<notin> set pkgs"
  shows "liveMode (scr (sys_world (step e (LivePackagesChange pkgs) sy))) = 1
       \<and> \<not> live (scr (sys_world (step e (LivePackagesChange pkgs) sy)))
       \<and> livePackages (step e (LivePackagesChange pkgs) sy) = pkgs"
  using assms by (simp add: on_screen_def livePackagesEffect_def)

theorem not_live_forces_historical_witness:
  "packageServerName env0 \<in> set [''steel-frame'', ''basement'']
   \<and> liveMode (scr (sys_world (run env0 [LivePackagesChange [''steel-frame'', ''basement''],
        SetLiveMode 0] (initial_system [])))) = 0
   \<and> packageServerName env0 \<notin> set [''basement'']
   \<and> liveMode (scr (sys_world (run env0 [LivePackagesChange [''steel-frame'', ''basement''],
        SetLiveMode 0, LivePackagesChange [''basement'']] (initial_system [])))) = 1"
proof -
  have out: "packageServerName env0 \<notin> set [''basement'']"
    by (simp add: env0_def)
  show ?thesis
    using out
      not_live_forces_historical [OF out,
        of "run env0 [LivePackagesChange [''steel-frame'', ''basement''], SetLiveMode 0]
              (initial_system [])"]
    by (simp add: env0_def on_screen_def livePackagesEffect_def initial_system_def
        initial_world_def initial_screen_def)
qed

section \<open>Live mode only for a live package\<close>

text \<open>
  Claim C8, as the code has it. The screen hands the menu \<^verbatim>\<open>live\<close> and the setter
  \<^verbatim>\<open>setLiveMode\<close> as it is, and rejects nothing itself. In every state reached from the
  initial one by a run in which \<^verbatim>\<open>setLiveMode(0)\<close> is called only while \<^verbatim>\<open>live\<close> is true,
  the live mode is Live (0) only if the package is in the list of live packages.
\<close>

theorem live_only_while_menu_guards:
  assumes "goes_live_only_when_live e evs (initial_system pkgs)"
    and "liveMode (scr (sys_world (run e evs (initial_system pkgs)))) = 0"
  shows "packageServerName e \<in> set (livePackages (run e evs (initial_system pkgs)))"
  using run_keeps_live_invariant [OF initial_live_invariant assms(1)] assms(2)
  by (auto simp: live_invariant_def)

theorem live_only_while_menu_guards_witness:
  "goes_live_only_when_live env0 [LivePackagesChange [''steel-frame''], SetLiveMode 0]
      (initial_system [])
   \<and> liveMode (scr (sys_world (run env0 [LivePackagesChange [''steel-frame''], SetLiveMode 0]
        (initial_system [])))) = 0
   \<and> packageServerName env0 \<in> set (livePackages
        (run env0 [LivePackagesChange [''steel-frame''], SetLiveMode 0] (initial_system [])))"
proof -
  have g: "goes_live_only_when_live env0 [LivePackagesChange [''steel-frame''], SetLiveMode 0]
      (initial_system [])"
    by (simp add: on_screen_def livePackagesEffect_def env0_def)
  have l: "liveMode (scr (sys_world (run env0 [LivePackagesChange [''steel-frame''],
      SetLiveMode 0] (initial_system [])))) = 0"
    by (simp add: on_screen_def)
  show ?thesis
    using g l live_only_while_menu_guards [OF g l] by simp
qed

text \<open>
  The package is not live, \<^verbatim>\<open>live\<close> is false, and \<^verbatim>\<open>setLiveMode(0)\<close> is called all the
  same: the screen is in live mode for a package that is not live.
\<close>

theorem go_live_accepted_when_not_live:
  "packageServerName env0 \<notin> set (livePackages
      (run env0 [LivePackagesChange [''basement''], SetLiveMode 0] (initial_system [''basement''])))
   \<and> \<not> live (scr (sys_world (run env0 [LivePackagesChange [''basement'']]
        (initial_system [''basement'']))))
   \<and> liveMode (scr (sys_world (run env0 [LivePackagesChange [''basement''], SetLiveMode 0]
        (initial_system [''basement''])))) = 0"
  by (simp add: on_screen_def livePackagesEffect_def env0_def initial_system_def
      initial_world_def initial_screen_def)

section \<open>The colour scale of the model\<close>




section \<open>What a \<^verbatim>\<open>refresh\<close> leaves of the options\<close>

text \<open>
  When a call ends, both of its fetches having resolved, \<^verbatim>\<open>showTemperature\<close>,
  \<^verbatim>\<open>showContext\<close> and \<^verbatim>\<open>colourMode\<close> are what they were at the call, whatever has happened
  in between: the chart options are those of the call with \<^verbatim>\<open>sensors\<close> and
  \<^verbatim>\<open>temperatureData\<close> replaced, the model options those of the call with \<^verbatim>\<open>scale\<close>
  replaced.
\<close>

lemma options_of_the_call_are_stored:
  assumes "d \<noteq> []" and "length (allReadings d) \<le> argumentLimit e"
    and "\<forall>ev \<in> set evs1. \<not> settles (length (tasks sy)) ev"
    and "\<forall>ev \<in> set evs2. \<not> settles (length (tasks sy)) ev"
  shows "showTemperature (chartOptions (scr (sys_world (run e
            (Refresh args # evs1 @ FetchDataSettles (length (tasks sy)) (Resolves d) # evs2
               @ [FetchTemperatureSettles (length (tasks sy)) (Resolves t)]) sy))))
           = showTemperature (chartOptions (scr (sys_world sy)))
       \<and> showContext (modelOptions (scr (sys_world (run e
            (Refresh args # evs1 @ FetchDataSettles (length (tasks sy)) (Resolves d) # evs2
               @ [FetchTemperatureSettles (length (tasks sy)) (Resolves t)]) sy))))
           = showContext (modelOptions (scr (sys_world sy)))
       \<and> colourMode (modelOptions (scr (sys_world (run e
            (Refresh args # evs1 @ FetchDataSettles (length (tasks sy)) (Resolves d) # evs2
               @ [FetchTemperatureSettles (length (tasks sy)) (Resolves t)]) sy))))
           = colourMode (modelOptions (scr (sys_world sy)))"
  using call_runs_to_end [OF assms, of args t]
  by (simp del: run.simps)

text \<open>
  Claim C10, at a call during which the options are changed. The call is made with the
  temperatures hidden, the context shown and the adaptive colour mode; while its fetch is
  under way the menu sets the temperatures shown, the context hidden and the fixed
  colour mode, and these are the current values when the series arrives. The call then
  ends well and stores the options it was created with: the three values are back to
  what they were at the call.
\<close>

theorem pending_refresh_reverts_options:
  "showTemperature (chartOptions (scr (sys_world (run env0
      [Refresh args_str, SetChartOptions chart_choice, SetModelOptions model_choice,
       FetchDataSettles 0 (Resolves series_a)] (initial_system []))))) = True
   \<and> showContext (modelOptions (scr (sys_world (run env0
      [Refresh args_str, SetChartOptions chart_choice, SetModelOptions model_choice,
       FetchDataSettles 0 (Resolves series_a)] (initial_system []))))) = False
   \<and> colourMode (modelOptions (scr (sys_world (run env0
      [Refresh args_str, SetChartOptions chart_choice, SetModelOptions model_choice,
       FetchDataSettles 0 (Resolves series_a)] (initial_system []))))) = 1
   \<and> showTemperature (chartOptions (scr (sys_world (run env0
      [Refresh args_str, SetChartOptions chart_choice, SetModelOptions model_choice,
       FetchDataSettles 0 (Resolves series_a), FetchTemperatureSettles 0 (Resolves [])]
      (initial_system []))))) = False
   \<and> showContext (modelOptions (scr (sys_world (run env0
      [Refresh args_str, SetChartOptions chart_choice, SetModelOptions model_choice,
       FetchDataSettles 0 (Resolves series_a), FetchTemperatureSettles 0 (Resolves [])]
      (initial_system []))))) = True
   \<and> colourMode (modelOptions (scr (sys_world (run env0
      [Refresh args_str, SetChartOptions chart_choice, SetModelOptions model_choice,
       FetchDataSettles 0 (Resolves series_a), FetchTemperatureSettles 0 (Resolves [])]
      (initial_system []))))) = 0
   \<and> tasks (run env0
      [Refresh args_str, SetChartOptions chart_choice, SetModelOptions model_choice,
       FetchDataSettles 0 (Resolves series_a), FetchTemperatureSettles 0 (Resolves [])]
      (initial_system [])) = [Settled Fulfilled]
   \<and> console (sys_world (run env0
      [Refresh args_str, SetChartOptions chart_choice, SetModelOptions model_choice,
       FetchDataSettles 0 (Resolves series_a), FetchTemperatureSettles 0 (Resolves [])]
      (initial_system []))) = []"
  by (simp add: run_at_inputs chart_choice_def model_choice_def)

end
